theory Spec2Isabelle
  imports Main
begin

section \<open>Data model of \<^verbatim>\<open>main.go\<close>\<close>

text \<open>
  Go's \<^verbatim>\<open>error\<close> values. \<open>ErrorString m\<close> is \<^verbatim>\<open>errors.New(m)\<close> at a call site of
  \<^verbatim>\<open>main.go\<close>; \<open>Sentinel n\<close> is a package-level error variable, which the code compares
  by identity (\<^verbatim>\<open>err == awsProfileNotFound\<close>); \<open>External m\<close> is an error produced by a
  collaborator (the line reader, the network client, the key chain). \<open>None\<close> of type
  \<open>error option\<close> is \<^verbatim>\<open>nil\<close>.
\<close>

datatype error = ErrorString string | Sentinel string | External string


text \<open>
  Modelled from the spec: the package-level variable \<^verbatim>\<open>wrongMfaError\<close> is declared outside
  \<^verbatim>\<open>main.go\<close>; the spec calls it the factor selection error, with the message
  "wrong mfa factor".
\<close>

definition wrongMfaError :: error where
  "wrongMfaError = Sentinel ''wrong mfa factor''"


text \<open>
  The fields of the provider's structures that \<^verbatim>\<open>main.go\<close> reads. \<open>Factors\<close> is
  \<^verbatim>\<open>ores.Embedded.Factors\<close>; \<open>Id'\<close> is the field \<^verbatim>\<open>Id\<close>.
\<close>

record OktaMfaFactor =
  Id' :: string
  FactorType :: string
  Provider :: string

record OktaLoginResponse =
  Status :: string
  Factors :: "OktaMfaFactor list"

record OktaSamlResponse =
  raw :: string

datatype OktaConfig = OktaConfig (BaseURL: string) (AppURL: string)

datatype AwsConfig = AwsConfig string

datatype Credentials =
  Credentials (AccessKeyID: string) (SecretAccessKey: string) (SessionToken: string)

datatype Cookie = Cookie (Name: string) (Value: string)

type_synonym Time = int

text \<open>
  A runtime panic of the Go program: an index outside a slice (the index and the length),
  or a field read through a \<^verbatim>\<open>nil\<close> pointer.
\<close>

datatype panic = IndexOutOfRange int nat | NilDereference

datatype 'a exec = Returns 'a | Panics panic

section \<open>Effects\<close>

text \<open>
  Every call that leaves the program is an event; a run is the list of its events, oldest
  first. \<open>EvPrint m\<close> is \<^verbatim>\<open>fmt.Println\<close>/\<^verbatim>\<open>fmt.Printf\<close> of the text \<open>m\<close> (without the final
  newline), \<open>EvPrintMenu i l\<close> is \<^verbatim>\<open>fmt.Printf("[%d] l\n", i)\<close>, \<open>EvSleep n\<close> is
  \<^verbatim>\<open>time.Sleep\<close> of \<open>n\<close> seconds. Calls of \<^verbatim>\<open>debug\<close> and the set-up and closing of the line
  reader are left out.
\<close>

datatype event =
    EvPrint string
  | EvPrintMenu nat string
  | EvSleep nat
  | EvPrompt string
  | EvPasswordPrompt string
  | EvLogin string string
  | EvDoMfa OktaMfaFactor string
  | EvParseConfig string
  | EvReadAwsProfile string
  | EvLoadCreds string
  | EvPrepAndLaunch "string list" Credentials
  | EvGetKeychain
  | EvGetPassword string string
  | EvGetSaml string
  | EvDecodePasswordStruct string
  | EvGetSamlSession Cookie
  | EvAssumeFirstRole AwsConfig "OktaSamlResponse option"
  | EvAssumeDestinationRole AwsConfig Credentials
  | EvStoreCredsAws string Credentials
  | EvStoreCreds string Credentials Time

type_synonym history = "event list"

text \<open>
  The collaborators of the login flow, which \<^verbatim>\<open>main.go\<close> calls and does not define: the
  line reader (\<^verbatim>\<open>liner\<close>) and the identity provider's client (\<^verbatim>\<open>login\<close>, \<^verbatim>\<open>doMfa\<close>). Each
  answers from the history of the run so far and its arguments, so that successive calls
  may answer differently.
\<close>

record env =
  Prompt :: "history \<Rightarrow> string \<Rightarrow> string \<times> error option"
  PasswordPrompt :: "history \<Rightarrow> string \<Rightarrow> string \<times> error option"
  login :: "history \<Rightarrow> OktaConfig \<Rightarrow> string \<Rightarrow> string \<Rightarrow> OktaLoginResponse \<times> error option"
  doMfa :: "history \<Rightarrow> OktaLoginResponse \<Rightarrow> OktaMfaFactor \<Rightarrow> string \<Rightarrow> string \<times> error option"

section \<open>\<^verbatim>\<open>strconv.Atoi\<close>\<close>

text \<open>
  Go's \<^verbatim>\<open>strconv.Atoi\<close> on a 64-bit platform is \<^verbatim>\<open>ParseInt(s, 10, 0)\<close>: an optional sign, then
  decimal digits read left to right. A character that is not a digit gives 0 and a syntax
  error; a value that leaves the 64-bit range gives the nearest bound and a range error,
  as soon as the digits read so far overflow. The unsigned 64-bit accumulator is an \<open>int\<close>
  with the overflow tests of the library written out.
\<close>

datatype NumError = ErrSyntax | ErrRange

definition is_digit :: "char \<Rightarrow> bool" where
  "is_digit c = (48 \<le> (of_char c :: int) \<and> (of_char c :: int) \<le> 57)"

definition digit_val :: "char \<Rightarrow> int" where
  "digit_val c = of_char c - 48"

definition maxUint64 :: int where
  "maxUint64 = 2 ^ 64 - 1"

fun ParseUint_loop :: "string \<Rightarrow> int \<Rightarrow> int \<times> NumError option" where
  "ParseUint_loop [] n = (n, None)"
| "ParseUint_loop (c # cs) n =
     (if \<not> is_digit c then (0, Some ErrSyntax)
      else if maxUint64 div 10 + 1 \<le> n then (maxUint64, Some ErrRange)
      else if maxUint64 < n * 10 + digit_val c then (maxUint64, Some ErrRange)
      else ParseUint_loop cs (n * 10 + digit_val c))"

definition ParseUint :: "string \<Rightarrow> int \<times> NumError option" where
  "ParseUint s = (if s = [] then (0, Some ErrSyntax) else ParseUint_loop s 0)"

definition ParseInt :: "string \<Rightarrow> int \<times> NumError option" where
  "ParseInt s =
     (if s = [] then (0, Some ErrSyntax)
      else
        let neg = (hd s = CHR ''-'');
            s1 = (if hd s = CHR ''+'' \<or> hd s = CHR ''-'' then tl s else s)
        in case ParseUint s1 of
             (un, err) \<Rightarrow>
               if err = Some ErrSyntax then (0, err)
               else if \<not> neg \<and> 2 ^ 63 \<le> un then (2 ^ 63 - 1, Some ErrRange)
               else if neg \<and> 2 ^ 63 < un then (- (2 ^ 63), Some ErrRange)
               else (if neg then - un else un, None))"

definition Atoi :: "string \<Rightarrow> int \<times> NumError option" where
  "Atoi s = ParseInt s"

section \<open>Factor selection\<close>

text \<open>The menu that \<^verbatim>\<open>selectTokenFactor\<close> prints: the loop over \<^verbatim>\<open>range factors\<close>.\<close>

definition menu_line :: "nat \<Rightarrow> OktaMfaFactor \<Rightarrow> event list" where
  "menu_line i factor =
     (if FactorType factor = ''push'' then [EvPrintMenu i ''Push notification''] else []) @
     (if FactorType factor = ''token:software:totp''
      then (if Provider factor = ''GOOGLE''
            then [EvPrintMenu i ''Google Authenticator'']
            else [EvPrintMenu i ''Okta Verify''])
      else [])"

fun menu :: "nat \<Rightarrow> OktaMfaFactor list \<Rightarrow> event list" where
  "menu i [] = []"
| "menu i (factor # factors) = menu_line i factor @ menu (Suc i) factors"

text \<open>
  \<^verbatim>\<open>selectTokenFactor\<close>. The error of the prompt and the error of \<^verbatim>\<open>Atoi\<close> are discarded, as
  the source does with \<^verbatim>\<open>_\<close>. Go checks the bounds of \<^verbatim>\<open>factors[mfaIdx]\<close> and panics outside
  them.
\<close>

definition selectTokenFactor ::
  "'a env_scheme \<Rightarrow> history \<Rightarrow> OktaLoginResponse \<Rightarrow>
     (OktaMfaFactor option \<times> error option) exec \<times> history" where
  "selectTokenFactor e h ores =
     (let factors = Factors ores in
      if length factors = 0
      then (Returns (None, Some (ErrorString ''MFA factors not present in response'')), h)
      else if length factors = 1
      then (Returns (Some (factors ! 0), None), h)
      else
        let h1 = h @ menu 0 factors;
            mfaIdxAnswer = fst (Prompt e h1 ''Select your second factor: '');
            h2 = h1 @ [EvPrompt ''Select your second factor: ''];
            mfaIdx = fst (Atoi mfaIdxAnswer)
        in if mfaIdx < 0 \<or> int (length factors) \<le> mfaIdx
           then (Panics (IndexOutOfRange mfaIdx (length factors)), h2)
           else
             let mfaFactor = factors ! nat mfaIdx
             in if Id' mfaFactor = ''''
                then (Returns (None, Some wrongMfaError), h2)
                else (Returns (Some mfaFactor, None), h2))"

section \<open>The MFA challenge\<close>

text \<open>\<^verbatim>\<open>readMfaToken\<close>: a banner, then the prompt.\<close>

definition readMfaToken :: "'a env_scheme \<Rightarrow> history \<Rightarrow> (string \<times> error option) \<times> history" where
  "readMfaToken e h =
     (let h1 = h @ [EvPrint ''Your account requires MFA; please enter a token.'']
      in (Prompt e h1 ''MFA token: '', h1 @ [EvPrompt ''MFA token: '']))"

text \<open>
  \<^verbatim>\<open>startPushMfa\<close>: the code from the label \<^verbatim>\<open>TRYPUSH\<close> on, with the variables that live
  across the \<^verbatim>\<open>goto\<close> as arguments: \<^verbatim>\<open>tries\<close> and the named result \<^verbatim>\<open>err\<close>.
\<close>

function TRYPUSH ::
  "'a env_scheme \<Rightarrow> OktaLoginResponse \<Rightarrow> OktaMfaFactor \<Rightarrow> nat \<Rightarrow> error option \<Rightarrow> history \<Rightarrow>
     (string \<times> error option) \<times> history" where
  "TRYPUSH e ores factor tries err h =
     (if tries < 15
      then (case doMfa e h ores factor ''-'' of
              (sessionToken, err') \<Rightarrow>
                if err' \<noteq> None
                then TRYPUSH e ores factor (tries + 1) err'
                       (h @ [EvDoMfa factor ''-'', EvPrint ''Push not yet acked, sleeping'',
                             EvSleep 2])
                else ((sessionToken, None), h @ [EvDoMfa factor ''-'']))
      else (('''', err), h @ [EvPrint ''Error performing MFA auth!'']))"
  by pat_completeness auto
termination
  by (relation "measure (\<lambda>(e, ores, factor, tries, err, h). 15 - tries)") auto

definition startPushMfa ::
  "'a env_scheme \<Rightarrow> history \<Rightarrow> OktaLoginResponse \<Rightarrow> OktaMfaFactor \<Rightarrow>
     (string \<times> error option) \<times> history" where
  "startPushMfa e h ores factor = TRYPUSH e ores factor 0 None h"

text \<open>
  \<^verbatim>\<open>startTotpMfa\<close>: the code from the label \<^verbatim>\<open>TRYMFA\<close> on. The prompt is above the test of
  \<^verbatim>\<open>tries\<close>, and its result is assigned to the named result \<^verbatim>\<open>err\<close>, which is what the
  \<^verbatim>\<open>else\<close> branch returns.
\<close>

function TRYMFA ::
  "'a env_scheme \<Rightarrow> OktaLoginResponse \<Rightarrow> OktaMfaFactor \<Rightarrow> nat \<Rightarrow> history \<Rightarrow>
     (string \<times> error option) \<times> history" where
  "TRYMFA e ores factor tries h =
     (case readMfaToken e h of
        ((mfaToken, err), h1) \<Rightarrow>
          if err \<noteq> None then (('''', err), h1)
          else if tries < 2
          then (case doMfa e h1 ores factor mfaToken of
                  (sessionToken, err') \<Rightarrow>
                    if err' \<noteq> None
                    then TRYMFA e ores factor (tries + 1)
                           (h1 @ [EvDoMfa factor mfaToken,
                                  EvPrint ''Invalid MFA code, please try again.''])
                    else ((sessionToken, None), h1 @ [EvDoMfa factor mfaToken]))
          else (('''', err), h1 @ [EvPrint ''Error performing MFA auth!'']))"
  by pat_completeness auto
termination
  by (relation "measure (\<lambda>(e, ores, factor, tries, h). 2 - tries)") auto

definition startTotpMfa ::
  "'a env_scheme \<Rightarrow> history \<Rightarrow> OktaLoginResponse \<Rightarrow> OktaMfaFactor \<Rightarrow>
     (string \<times> error option) \<times> history" where
  "startTotpMfa e h ores factor = TRYMFA e ores factor 0 h"

text \<open>
  \<^verbatim>\<open>startMfa\<close>: the named results \<^verbatim>\<open>sessionToken\<close> and \<^verbatim>\<open>err\<close> start as the empty string and
  \<^verbatim>\<open>nil\<close>, and the \<^verbatim>\<open>if\<close> chain has no final \<^verbatim>\<open>else\<close>.
\<close>

definition startMfa ::
  "'a env_scheme \<Rightarrow> history \<Rightarrow> OktaLoginResponse \<Rightarrow> OktaMfaFactor \<Rightarrow>
     (string \<times> error option) \<times> history" where
  "startMfa e h ores factor =
     (if FactorType factor = ''push'' then startPushMfa e h ores factor
      else if FactorType factor = ''token:software:totp'' then startTotpMfa e h ores factor
      else (('''', None), h))"

section \<open>The login flow\<close>

text \<open>\<^verbatim>\<open>readUserPass\<close>: the password is asked only after the user name was read.\<close>

definition readUserPass ::
  "'a env_scheme \<Rightarrow> history \<Rightarrow> (string \<times> string \<times> error option) \<times> history" where
  "readUserPass e h =
     (case Prompt e h ''Username: '' of
        (user, err) \<Rightarrow>
          let h1 = h @ [EvPrompt ''Username: ''] in
          if err \<noteq> None then ((user, '''', err), h1)
          else (case PasswordPrompt e h1 ''Password: '' of
                  (pass, err') \<Rightarrow> ((user, pass, err'), h1 @ [EvPasswordPrompt ''Password: ''])))"

definition getSessionFromLogin ::
  "'a env_scheme \<Rightarrow> history \<Rightarrow> OktaConfig \<Rightarrow> (string \<times> error option) exec \<times> history" where
  "getSessionFromLogin e h oktaCfg =
     (case readUserPass e h of
        ((user, pass, err), h1) \<Rightarrow>
          if err \<noteq> None then (Returns ('''', Some (ErrorString ''control-c'')), h1)
          else if user = '''' \<or> pass = ''''
          then (Returns ('''', Some (ErrorString ''Must supply a username and password'')), h1)
          else (case login e h1 oktaCfg user pass of
                  (ores, err1) \<Rightarrow>
                    let h2 = h1 @ [EvLogin user pass] in
                    if err1 \<noteq> None
                    then (Returns ('''', err1),
                          h2 @ [EvPrint ''Error authenticating with Okta! Maybe your username or password are wrong.''])
                    else if Status ores \<noteq> ''MFA_REQUIRED''
                    then (Returns ('''', Some (ErrorString ''MFA required to use this tool'')), h2)
                    else (case selectTokenFactor e h2 ores of
                            (Panics p, h3) \<Rightarrow> (Panics p, h3)
                          | (Returns (factor, err2), h3) \<Rightarrow>
                              if err2 \<noteq> None
                              then (Returns ('''', err2),
                                    h3 @ [EvPrint ''Error processing okta response!''])
                              else (case factor of
                                      None \<Rightarrow> (Panics NilDereference, h3)
                                    | Some factor' \<Rightarrow>
                                        (case startMfa e h3 ores factor' of
                                           ((sessionToken, err3), h4) \<Rightarrow>
                                             if err3 \<noteq> None
                                             then (Returns ('''', err3),
                                                   h4 @ [EvPrint ''Error doing MFA!''])
                                             else (Returns (sessionToken, None), h4))))))"

section \<open>\<^verbatim>\<open>main\<close>\<close>















section \<open>Test doubles\<close>

text \<open>
  Concrete collaborators, on which the theorems below are instantiated. The line reader
  answers the successive prompts from a list and reports the end of input after it; the
  provider accepts one code; the login returns a fixed response.
\<close>

fun is_prompt :: "event \<Rightarrow> bool" where
  "is_prompt (EvPrompt m) = True"
| "is_prompt ev = False"

definition stub_env :: "string list \<Rightarrow> string \<Rightarrow> OktaLoginResponse \<Rightarrow> env" where
  "stub_env answers good ores =
     \<lparr>Prompt = (\<lambda>h m. let k = length (filter is_prompt h)
                      in if k < length answers then (answers ! k, None)
                         else ('''', Some (External ''EOF''))),
      PasswordPrompt = (\<lambda>h m. (''secret'', None)),
      login = (\<lambda>h cfg user pass. (ores, None)),
      doMfa = (\<lambda>h ores factor code.
                 if code = good then (''session-token'', None)
                 else ('''', Some (External ''verification failed'')))\<rparr>"

definition push_factor :: OktaMfaFactor where
  "push_factor = \<lparr>Id' = ''f-push'', FactorType = ''push'', Provider = ''OKTA''\<rparr>"

definition totp_factor :: OktaMfaFactor where
  "totp_factor = \<lparr>Id' = ''f-totp'', FactorType = ''token:software:totp'', Provider = ''GOOGLE''\<rparr>"

definition sms_factor :: OktaMfaFactor where
  "sms_factor = \<lparr>Id' = ''f-sms'', FactorType = ''sms'', Provider = ''OKTA''\<rparr>"

definition mfa_response :: "OktaMfaFactor list \<Rightarrow> OktaLoginResponse" where
  "mfa_response factors = \<lparr>Status = ''MFA_REQUIRED'', Factors = factors\<rparr>"





text \<open>A line reader that answers every prompt with the same text, and the same provider.\<close>

definition const_env :: "string \<Rightarrow> string \<Rightarrow> env" where
  "const_env answer good =
     \<lparr>Prompt = (\<lambda>h m. (answer, None)),
      PasswordPrompt = (\<lambda>h m. (''secret'', None)),
      login = (\<lambda>h cfg user pass. (mfa_response [totp_factor], None)),
      doMfa = (\<lambda>h ores factor code.
                 if code = good then (''session-token'', None)
                 else ('''', Some (External ''verification failed'')))\<rparr>"

section \<open>Pieces of a run\<close>

text \<open>
  The events of one unacknowledged round of \<^verbatim>\<open>startPushMfa\<close>, of one call of
  \<^verbatim>\<open>readMfaToken\<close>, and of one rejected code in \<^verbatim>\<open>startTotpMfa\<close>; and the tests that pick
  out the verification calls and the sleeps of a history.
\<close>

definition push_round :: "OktaMfaFactor \<Rightarrow> event list" where
  "push_round factor =
     [EvDoMfa factor ''-'', EvPrint ''Push not yet acked, sleeping'', EvSleep 2]"

definition totp_banner :: event where
  "totp_banner = EvPrint ''Your account requires MFA; please enter a token.''"

definition totp_ask :: "event list" where
  "totp_ask = [totp_banner, EvPrompt ''MFA token: '']"

definition totp_reject :: "OktaMfaFactor \<Rightarrow> string \<Rightarrow> event list" where
  "totp_reject factor code =
     [EvDoMfa factor code, EvPrint ''Invalid MFA code, please try again.'']"

fun is_doMfa :: "event \<Rightarrow> bool" where
  "is_doMfa (EvDoMfa factor code) = True"
| "is_doMfa ev = False"

fun is_sleep :: "event \<Rightarrow> bool" where
  "is_sleep (EvSleep n) = True"
| "is_sleep ev = False"







section \<open>Properties of \<^verbatim>\<open>strconv.Atoi\<close> and of factor selection\<close>

lemma Atoi_syntax_zero: "snd (Atoi s) = Some ErrSyntax \<Longrightarrow> fst (Atoi s) = 0"
  by (auto simp: Atoi_def ParseInt_def Let_def split: prod.splits if_splits)

lemma Atoi_2: "Atoi ''2'' = (2, None)"
  by (simp add: Atoi_def ParseInt_def ParseUint_def is_digit_def digit_val_def maxUint64_def)

lemma Atoi_abc: "Atoi ''abc'' = (0, Some ErrSyntax)"
  by (simp add: Atoi_def ParseInt_def ParseUint_def is_digit_def digit_val_def maxUint64_def)

text \<open>
  An answer that is empty, or whose first character after an optional sign is not a digit,
  is rejected by \<^verbatim>\<open>Atoi\<close> with a syntax error and the value 0.
\<close>

lemma Atoi_no_leading_digit:
  assumes "body = (if s \<noteq> [] \<and> (hd s = CHR ''+'' \<or> hd s = CHR ''-'') then tl s else s)"
    and "body = [] \<or> \<not> is_digit (hd body)"
  shows "Atoi s = (0, Some ErrSyntax)"
proof (cases body)
  case Nil
  with assms(1) show ?thesis
    by (auto simp: Atoi_def ParseInt_def ParseUint_def Let_def split: if_splits)
next
  case (Cons c cs)
  with assms(2) have "\<not> is_digit c" by simp
  with Cons assms(1) show ?thesis
    by (auto simp: Atoi_def ParseInt_def ParseUint_def Let_def split: if_splits)
qed

text \<open>With two factors or more, the selection is the menu, one prompt and one indexing.\<close>

lemma selectTokenFactor_many:
  assumes "1 < length (Factors ores)"
  shows "selectTokenFactor e h ores =
    (let factors = Factors ores;
         h2 = h @ menu 0 factors @ [EvPrompt ''Select your second factor: ''];
         mfaIdx = fst (Atoi (fst (Prompt e (h @ menu 0 factors) ''Select your second factor: '')))
     in if mfaIdx < 0 \<or> int (length factors) \<le> mfaIdx
        then (Panics (IndexOutOfRange mfaIdx (length factors)), h2)
        else if Id' (factors ! nat mfaIdx) = '''' then (Returns (None, Some wrongMfaError), h2)
        else (Returns (Some (factors ! nat mfaIdx), None), h2))"
  using assms by (cases "Factors ores") (simp_all add: selectTokenFactor_def Let_def)

text \<open>
  Claim C1. The claim says that a numeric selection outside the factor list makes
  \<^verbatim>\<open>selectTokenFactor\<close> fail with \<^verbatim>\<open>wrongMfaError\<close> and never crash. The code indexes the
  slice with the number as it was typed, before it looks at the factor: for every list of
  two factors or more and every answer that \<^verbatim>\<open>Atoi\<close> converts to a number below 0 or not
  below the length, the run panics with an index out of range, after the menu and the
  prompt. With the factors push and TOTP and the answer \<^verbatim>\<open>2\<close> the panic is at index 2 of a
  slice of length 2.
\<close>

theorem selectTokenFactor_out_of_range_panics:
  assumes "1 < length (Factors ores)"
    and "fst (Prompt e (h @ menu 0 (Factors ores)) ''Select your second factor: '') = answer"
    and "Atoi answer = (idx, None)"
    and "idx < 0 \<or> int (length (Factors ores)) \<le> idx"
  shows "selectTokenFactor e h ores =
     (Panics (IndexOutOfRange idx (length (Factors ores))),
      h @ menu 0 (Factors ores) @ [EvPrompt ''Select your second factor: ''])"
  using assms by (simp add: selectTokenFactor_many Let_def)

theorem selectTokenFactor_out_of_range_panics_witness:
  "selectTokenFactor (stub_env [''2''] ''123456'' (mfa_response [])) []
     (mfa_response [push_factor, totp_factor]) =
   (Panics (IndexOutOfRange 2 2),
    [EvPrintMenu 0 ''Push notification'', EvPrintMenu 1 ''Google Authenticator'',
     EvPrompt ''Select your second factor: ''])"
  using selectTokenFactor_out_of_range_panics
    [of "mfa_response [push_factor, totp_factor]" "stub_env [''2''] ''123456'' (mfa_response [])"
        "[]" "''2''" 2]
  by (simp add: Atoi_2 mfa_response_def stub_env_def push_factor_def totp_factor_def menu_line_def)

text \<open>
  Claim C8. Factor selection by the length of the factor list: with no factor
  \<^verbatim>\<open>selectTokenFactor\<close> returns no factor and the error "MFA factors not present in
  response"; with exactly one factor it returns that factor and no error. In both cases
  the history is returned as it was: nothing is printed and the user is not prompted,
  whatever the line reader would answer.
\<close>

theorem selectTokenFactor_by_length:
  "selectTokenFactor e h (ores\<lparr>Factors := []\<rparr>) =
     (Returns (None, Some (ErrorString ''MFA factors not present in response'')), h) \<and>
   selectTokenFactor e h (ores\<lparr>Factors := [factor]\<rparr>) = (Returns (Some factor, None), h)"
  by (simp add: selectTokenFactor_def)

theorem selectTokenFactor_by_length_witness:
  "selectTokenFactor (stub_env [] ''123456'' (mfa_response [])) [] (mfa_response []) =
     (Returns (None, Some (ErrorString ''MFA factors not present in response'')), []) \<and>
   selectTokenFactor (stub_env [] ''123456'' (mfa_response [])) [] (mfa_response [totp_factor]) =
     (Returns (Some totp_factor, None), [])"
  using selectTokenFactor_by_length
    [of "stub_env [] ''123456'' (mfa_response [])" "[]" "mfa_response []" totp_factor]
  by (simp add: mfa_response_def)

text \<open>
  Claim C10. In the selection among two factors or more, an answer that \<^verbatim>\<open>Atoi\<close> rejects
  with a syntax error (an answer that is not a number) is not rejected by
  \<^verbatim>\<open>selectTokenFactor\<close>: the error is dropped, the index is the 0 that \<^verbatim>\<open>Atoi\<close> returns with
  it, and the first factor of the list is returned, unless its \<^verbatim>\<open>Id\<close> is empty, the only
  case in which the selection fails with \<^verbatim>\<open>wrongMfaError\<close>.
\<close>

theorem selectTokenFactor_non_numeric:
  assumes "1 < length (Factors ores)"
    and "fst (Prompt e (h @ menu 0 (Factors ores)) ''Select your second factor: '') = answer"
    and "snd (Atoi answer) = Some ErrSyntax"
  shows "selectTokenFactor e h ores =
     (if Id' (Factors ores ! 0) = '''' then Returns (None, Some wrongMfaError)
      else Returns (Some (Factors ores ! 0), None),
      h @ menu 0 (Factors ores) @ [EvPrompt ''Select your second factor: ''])"
  using assms Atoi_syntax_zero [of answer]
  by (cases "Factors ores") (simp_all add: selectTokenFactor_many Let_def)

theorem selectTokenFactor_non_numeric_witness:
  "selectTokenFactor (stub_env [''abc''] ''123456'' (mfa_response [])) []
     (mfa_response [push_factor, totp_factor]) =
   (Returns (Some push_factor, None),
    [EvPrintMenu 0 ''Push notification'', EvPrintMenu 1 ''Google Authenticator'',
     EvPrompt ''Select your second factor: ''])"
  using selectTokenFactor_non_numeric
    [of "mfa_response [push_factor, totp_factor]" "stub_env [''abc''] ''123456'' (mfa_response [])"
        "[]" "''abc''"]
  by (simp add: Atoi_abc mfa_response_def stub_env_def push_factor_def totp_factor_def menu_line_def)

section \<open>Properties of the MFA challenge\<close>

text \<open>
  Claim C2. The claim says that a factor that is neither push nor TOTP makes \<^verbatim>\<open>startMfa\<close>
  fail with an error. The \<^verbatim>\<open>if\<close> chain of \<^verbatim>\<open>startMfa\<close> has no last \<^verbatim>\<open>else\<close>: for every such
  factor it returns its named results as they were initialised, the empty session token
  and the \<^verbatim>\<open>nil\<close> error, and calls nothing.
\<close>

theorem startMfa_unsupported_kind:
  assumes "FactorType factor \<noteq> ''push''" and "FactorType factor \<noteq> ''token:software:totp''"
  shows "startMfa e h ores factor = (('''', None), h)"
  using assms by (simp add: startMfa_def)

theorem startMfa_unsupported_kind_witness:
  "startMfa (stub_env [] ''123456'' (mfa_response [sms_factor])) [] (mfa_response [sms_factor])
     sms_factor = (('''', None), [])"
  using startMfa_unsupported_kind
    [of sms_factor "stub_env [] ''123456'' (mfa_response [sms_factor])" "[]" "mfa_response [sms_factor]"]
  by (simp add: sms_factor_def)

declare TRYPUSH.simps [simp del]

declare TRYMFA.simps [simp del]

text \<open>
  When no verification call is ever acknowledged, the push loop entered with \<open>tries\<close>
  runs the remaining \<open>15 - tries\<close> rounds and returns the error of the last call.
\<close>

lemma TRYPUSH_never_acked:
  assumes never: "\<forall>h'. snd (doMfa e h' ores factor ''-'') \<noteq> None"
  shows "tries + n = 15 \<Longrightarrow>
    TRYPUSH e ores factor tries err h =
      (('''', if n = 0 then err
              else snd (doMfa e (h @ concat (replicate (n - 1) (push_round factor))) ores factor ''-'')),
       h @ concat (replicate n (push_round factor)) @ [EvPrint ''Error performing MFA auth!''])"
proof (induction n arbitrary: tries err h)
  case 0
  then have "tries = 15" by simp
  then show ?case by (subst TRYPUSH.simps) simp
next
  case (Suc n)
  then have lt: "tries < 15" and rest: "(tries + 1) + n = 15" by simp_all
  obtain tok err' where call: "doMfa e h ores factor ''-'' = (tok, err')"
    by (cases "doMfa e h ores factor ''-''")
  with never have nz: "err' \<noteq> None" by (metis snd_conv)
  have step: "TRYPUSH e ores factor tries err h =
      TRYPUSH e ores factor (tries + 1) err' (h @ push_round factor)"
    using lt call nz by (subst TRYPUSH.simps) (simp add: push_round_def)
  show ?case
  proof (cases n)
    case 0
    with Suc.IH [OF rest, of err' "h @ push_round factor"] step call show ?thesis by simp
  next
    case (Suc m)
    with Suc.IH [OF rest, of err' "h @ push_round factor"] step show ?thesis by simp
  qed
qed

text \<open>
  Claim C4. When the provider never acknowledges the push (every verification call with
  the proof \<^verbatim>\<open>"-"\<close> returns an error), \<^verbatim>\<open>startPushMfa\<close> runs exactly 15 rounds, each one
  verification call, the message and a sleep of 2 seconds, and at the 16th test of \<^verbatim>\<open>tries\<close>
  prints "Error performing MFA auth!" and returns the empty token with an error, without
  another call. The events of the run are exactly these; it has 15 verification calls and
  15 sleeps, each of 2 seconds. The error returned is the one of the 15th verification
  call, which is not \<^verbatim>\<open>nil\<close>: the code has no error value of its own for the timeout.
\<close>

theorem startPushMfa_never_acked:
  assumes "\<forall>h'. snd (doMfa e h' ores factor ''-'') \<noteq> None"
  shows "startPushMfa e h ores factor =
      (('''', snd (doMfa e (h @ concat (replicate 14 (push_round factor))) ores factor ''-'')),
       h @ concat (replicate 15 (push_round factor)) @ [EvPrint ''Error performing MFA auth!'']) \<and>
    snd (doMfa e (h @ concat (replicate 14 (push_round factor))) ores factor ''-'') \<noteq> None \<and>
    length (filter is_doMfa
      (concat (replicate 15 (push_round factor)) @ [EvPrint ''Error performing MFA auth!''])) = 15 \<and>
    filter is_sleep
      (concat (replicate 15 (push_round factor)) @ [EvPrint ''Error performing MFA auth!'']) =
      replicate 15 (EvSleep 2)"
proof -
  have cnt: "length (filter is_doMfa (concat (replicate n (push_round factor)))) = n" for n
    by (induction n) (simp_all add: push_round_def)
  have slp: "filter is_sleep (concat (replicate n (push_round factor))) = replicate n (EvSleep 2)" for n
    by (induction n) (simp_all add: push_round_def)
  show ?thesis
    using TRYPUSH_never_acked [OF assms, of 0 15 None h] assms cnt [of 15] slp [of 15]
    by (simp add: startPushMfa_def)
qed

theorem startPushMfa_never_acked_witness:
  "startPushMfa (stub_env [] ''123456'' (mfa_response [push_factor])) []
     (mfa_response [push_factor]) push_factor =
   (('''', Some (External ''verification failed'')),
    concat (replicate 15 (push_round push_factor)) @ [EvPrint ''Error performing MFA auth!''])"
proof -
  have never: "\<forall>h'. snd (doMfa (stub_env [] ''123456'' (mfa_response [push_factor])) h'
      (mfa_response [push_factor]) push_factor ''-'') \<noteq> None"
    by (simp add: stub_env_def)
  show ?thesis
    using startPushMfa_never_acked [OF never, of "[]"] by (simp add: stub_env_def)
qed

text \<open>One pass through the label \<^verbatim>\<open>TRYMFA\<close>, with \<^verbatim>\<open>readMfaToken\<close> unfolded.\<close>

lemma TRYMFA_step:
  "TRYMFA e ores factor tries h =
     (case Prompt e (h @ [totp_banner]) ''MFA token: '' of
        (mfaToken, err) \<Rightarrow>
          if err \<noteq> None then (('''', err), h @ totp_ask)
          else if tries < 2
          then (case doMfa e (h @ totp_ask) ores factor mfaToken of
                  (sessionToken, err') \<Rightarrow>
                    if err' \<noteq> None
                    then TRYMFA e ores factor (tries + 1) (h @ totp_ask @ totp_reject factor mfaToken)
                    else ((sessionToken, None), h @ totp_ask @ [EvDoMfa factor mfaToken]))
          else (('''', err), h @ totp_ask @ [EvPrint ''Error performing MFA auth!'']))"
  by (subst TRYMFA.simps)
     (simp add: readMfaToken_def totp_ask_def totp_banner_def totp_reject_def Let_def
           split: prod.splits)

text \<open>A code accepted at the second attempt, after a rejected first one, gives the token.\<close>

lemma startTotpMfa_second_code_accepted:
  assumes p1: "Prompt e (h @ [totp_banner]) ''MFA token: '' = (t1, None)"
    and d1: "doMfa e (h @ totp_ask) ores factor t1 = (s1, Some e1)"
    and p2: "Prompt e (h @ totp_ask @ totp_reject factor t1 @ [totp_banner]) ''MFA token: '' =
               (t2, None)"
    and d2: "doMfa e (h @ totp_ask @ totp_reject factor t1 @ totp_ask) ores factor t2 = (s2, None)"
  shows "startTotpMfa e h ores factor =
     ((s2, None), h @ totp_ask @ totp_reject factor t1 @ totp_ask @ [EvDoMfa factor t2])"
proof -
  have "startTotpMfa e h ores factor =
      TRYMFA e ores factor 1 (h @ totp_ask @ totp_reject factor t1)"
    unfolding startTotpMfa_def using p1 d1 by (subst TRYMFA_step) simp
  also have "\<dots> = ((s2, None), h @ totp_ask @ totp_reject factor t1 @ totp_ask @ [EvDoMfa factor t2])"
    using p2 d2 by (subst TRYMFA_step) simp
  finally show ?thesis .
qed

text \<open>
  Claim C3. The claim says that two wrong codes make \<^verbatim>\<open>startTotpMfa\<close> fail with an error that
  is not \<^verbatim>\<open>nil\<close>. In the code the prompt stands above the test of \<^verbatim>\<open>tries\<close> and assigns the
  named result \<^verbatim>\<open>err\<close>: when the user types a code at every prompt and the provider rejects
  it at every verification, the run is two verification calls, a third prompt, the
  message "Error performing MFA auth!", and the result is the empty session token with
  the \<^verbatim>\<open>nil\<close> error.
\<close>

theorem startTotpMfa_two_wrong_codes:
  assumes typed: "\<forall>h'. Prompt e h' ''MFA token: '' = (code, None)"
    and wrong: "\<forall>h'. snd (doMfa e h' ores factor code) \<noteq> None"
  shows "startTotpMfa e h ores factor =
     (('''', None),
      h @ totp_ask @ totp_reject factor code @ totp_ask @ totp_reject factor code @ totp_ask @
        [EvPrint ''Error performing MFA auth!''])"
proof -
  have rej: "\<exists>s x. doMfa e h' ores factor code = (s, Some x)" for h'
    using spec [OF wrong, of h'] by (cases "doMfa e h' ores factor code") auto
  obtain s1 e1 where d1: "doMfa e (h @ totp_ask) ores factor code = (s1, Some e1)"
    using rej by blast
  obtain s2 e2 where d2:
    "doMfa e (h @ totp_ask @ totp_reject factor code @ totp_ask) ores factor code = (s2, Some e2)"
    using rej by blast
  have "startTotpMfa e h ores factor =
      TRYMFA e ores factor 1 (h @ totp_ask @ totp_reject factor code)"
    unfolding startTotpMfa_def using typed d1 by (subst TRYMFA_step) simp
  also have "\<dots> = TRYMFA e ores factor 2
      (h @ totp_ask @ totp_reject factor code @ totp_ask @ totp_reject factor code)"
    using typed d2 by (subst TRYMFA_step) (simp add: numeral_2_eq_2)
  also have "\<dots> = (('''', None),
      h @ totp_ask @ totp_reject factor code @ totp_ask @ totp_reject factor code @ totp_ask @
        [EvPrint ''Error performing MFA auth!''])"
    using typed by (subst TRYMFA_step) simp
  finally show ?thesis .
qed

theorem startTotpMfa_two_wrong_codes_witness:
  "startTotpMfa (const_env ''111111'' ''999999'') [] (mfa_response [totp_factor]) totp_factor =
   (('''', None),
    totp_ask @ totp_reject totp_factor ''111111'' @ totp_ask @ totp_reject totp_factor ''111111'' @
      totp_ask @ [EvPrint ''Error performing MFA auth!''])"
proof -
  have typed: "\<forall>h'. Prompt (const_env ''111111'' ''999999'') h' ''MFA token: '' = (''111111'', None)"
    by (simp add: const_env_def)
  have wrong: "\<forall>h'. snd (doMfa (const_env ''111111'' ''999999'') h' (mfa_response [totp_factor])
      totp_factor ''111111'') \<noteq> None"
    by (simp add: const_env_def)
  show ?thesis
    using startTotpMfa_two_wrong_codes [OF typed wrong, of "[]"] by simp
qed

text \<open>
  Claim C9. In \<^verbatim>\<open>startTotpMfa\<close>, after two prompts answered and two rejected verifications,
  the user is prompted a third time. What is typed there (\<open>t3\<close>) is never verified: the
  run has no verification call after the second. The error returned is the one of that
  third prompt (\<open>r3\<close>), with the empty session token: \<^verbatim>\<open>nil\<close> when the user typed anything,
  after the message "Error performing MFA auth!", and the error of the line reader when
  the user interrupted.
\<close>

theorem startTotpMfa_third_prompt:
  assumes p1: "Prompt e (h @ [totp_banner]) ''MFA token: '' = (t1, None)"
    and d1: "doMfa e (h @ totp_ask) ores factor t1 = (s1, Some e1)"
    and p2: "Prompt e (h @ totp_ask @ totp_reject factor t1 @ [totp_banner]) ''MFA token: '' =
               (t2, None)"
    and d2: "doMfa e (h @ totp_ask @ totp_reject factor t1 @ totp_ask) ores factor t2 =
               (s2, Some e2)"
    and p3: "Prompt e (h @ totp_ask @ totp_reject factor t1 @ totp_ask @ totp_reject factor t2 @
               [totp_banner]) ''MFA token: '' = (t3, r3)"
  shows "startTotpMfa e h ores factor =
     (('''', r3),
      h @ totp_ask @ totp_reject factor t1 @ totp_ask @ totp_reject factor t2 @ totp_ask @
        (if r3 = None then [EvPrint ''Error performing MFA auth!''] else []))"
proof -
  have "startTotpMfa e h ores factor =
      TRYMFA e ores factor 1 (h @ totp_ask @ totp_reject factor t1)"
    unfolding startTotpMfa_def using p1 d1 by (subst TRYMFA_step) simp
  also have "\<dots> = TRYMFA e ores factor 2
      (h @ totp_ask @ totp_reject factor t1 @ totp_ask @ totp_reject factor t2)"
    using p2 d2 by (subst TRYMFA_step) (simp add: numeral_2_eq_2)
  also have "\<dots> = (('''', r3),
      h @ totp_ask @ totp_reject factor t1 @ totp_ask @ totp_reject factor t2 @ totp_ask @
        (if r3 = None then [EvPrint ''Error performing MFA auth!''] else []))"
    using p3 by (subst TRYMFA_step) simp
  finally show ?thesis .
qed

theorem startTotpMfa_third_prompt_witness:
  "startTotpMfa (stub_env [''111111'', ''222222'', ''333333''] ''999999'' (mfa_response [totp_factor]))
     [] (mfa_response [totp_factor]) totp_factor =
   (('''', None),
    totp_ask @ totp_reject totp_factor ''111111'' @ totp_ask @ totp_reject totp_factor ''222222'' @
      totp_ask @ [EvPrint ''Error performing MFA auth!''])"
  using startTotpMfa_third_prompt
    [of "stub_env [''111111'', ''222222'', ''333333''] ''999999'' (mfa_response [totp_factor])" "[]"
        "''111111''" "mfa_response [totp_factor]" totp_factor "''''" "External ''verification failed''"
        "''222222''" "''''" "External ''verification failed''" "''333333''" None]
  by (simp add: stub_env_def totp_ask_def totp_reject_def totp_banner_def)

section \<open>Properties of the login flow\<close>

text \<open>
  Claim C7. When the user name and the password were read and are not empty, and the
  login succeeds with a response whose status is not \<^verbatim>\<open>MFA_REQUIRED\<close> (a bare success),
  \<^verbatim>\<open>getSessionFromLogin\<close> returns the empty token and the error "MFA required to use this
  tool"; the run ends with the login call: no factor is selected and no challenge starts.
\<close>

theorem getSessionFromLogin_bare_success:
  assumes "readUserPass e h = ((user, pass, None), h1)"
    and "user \<noteq> ''''" and "pass \<noteq> ''''"
    and "login e h1 oktaCfg user pass = (ores, None)"
    and "Status ores \<noteq> ''MFA_REQUIRED''"
  shows "getSessionFromLogin e h oktaCfg =
     (Returns ('''', Some (ErrorString ''MFA required to use this tool'')), h1 @ [EvLogin user pass])"
  using assms by (simp add: getSessionFromLogin_def)

theorem getSessionFromLogin_bare_success_witness:
  "getSessionFromLogin (stub_env [''alice''] ''123456'' \<lparr>Status = ''SUCCESS'', Factors = []\<rparr>) []
     (OktaConfig ''https://idp.example'' ''app'') =
   (Returns ('''', Some (ErrorString ''MFA required to use this tool'')),
    [EvPrompt ''Username: '', EvPasswordPrompt ''Password: '', EvLogin ''alice'' ''secret''])"
  using getSessionFromLogin_bare_success
    [of "stub_env [''alice''] ''123456'' \<lparr>Status = ''SUCCESS'', Factors = []\<rparr>" "[]"
        "''alice''" "''secret''" "[EvPrompt ''Username: '', EvPasswordPrompt ''Password: '']"
        "OktaConfig ''https://idp.example'' ''app''" "\<lparr>Status = ''SUCCESS'', Factors = []\<rparr>"]
  by (simp add: stub_env_def readUserPass_def)

section \<open>Histories only grow, and the login flow is quiet\<close>















section \<open>Properties of \<^verbatim>\<open>main\<close>: the second role\<close>




















section \<open>Properties of \<^verbatim>\<open>main\<close>: the federation stage\<close>

















end
